theory Spec2Isabelle
  imports Complex_Main
begin

section \<open>The array library, as far as the notebooks use it\<close>

text \<open>
  The notebooks build their sample data with a numeric array library. One-dimensional
  arrays are lists, two-dimensional arrays are lists of rows. An array element is
  modelled by the real number it denotes. Where a statement is about shapes only (the
  random walk) the arithmetic is left exact; where it is about the computed values (the
  random covariance) every product and sum is rounded as the library's double precision
  arithmetic rounds it.

  The library raises where a shape is wrong. Only the exceptions that the modelled calls
  can raise are listed.
\<close>

datatype py_error = ValueError | IndexError

definition bind_r :: "'e + 'a \<Rightarrow> ('a \<Rightarrow> 'e + 'b) \<Rightarrow> 'e + 'b" where
  "bind_r m k = (case m of Inl e \<Rightarrow> Inl e | Inr x \<Rightarrow> k x)"

text \<open>
  The global random state is threaded explicitly. The standard normal sampler is a
  parameter \<open>gauss\<close>: one call returns a sample and the next state.
\<close>

fun draws :: "('g \<Rightarrow> real \<times> 'g) \<Rightarrow> nat \<Rightarrow> 'g \<Rightarrow> real list \<times> 'g" where
  "draws gauss 0 g = ([], g)"
| "draws gauss (Suc k) g =
     (case gauss g of (z, g1) \<Rightarrow>
        (case draws gauss k g1 of (zs, g2) \<Rightarrow> (z # zs, g2)))"

text \<open>
  A sampler for concrete runs: it replays a fixed list of samples, the state being the
  position in the list, and returns zero once the list is used up.
\<close>

definition replay :: "real list \<Rightarrow> nat \<Rightarrow> real \<times> nat" where
  "replay zs g = (if g < length zs then zs ! g else 0, Suc g)"

text \<open>\<open>np.random.normal(loc, scale, size=size)\<close>: a negative size or scale raises.\<close>

definition np_random_normal ::
  "('g \<Rightarrow> real \<times> 'g) \<Rightarrow> real \<Rightarrow> real \<Rightarrow> int \<Rightarrow> 'g \<Rightarrow> py_error + (real list \<times> 'g)" where
  "np_random_normal gauss loc scale sz g =
     (if sz < 0 \<or> scale < 0 then Inl ValueError
      else case draws gauss (nat sz) g of
             (zs, g') \<Rightarrow> Inr (map (\<lambda>z. loc + scale * z) zs, g'))"

text \<open>\<open>np.ones(f)\<close>: a negative length raises.\<close>

definition np_ones :: "int \<Rightarrow> py_error + real list" where
  "np_ones f = (if f < 0 then Inl ValueError else Inr (replicate (nat f) 1))"

text \<open>
  \<open>np.convolve(a, v)\<close> in its default mode \<open>full\<close>: an empty argument raises, otherwise
  the result has one entry for every overlap of the two arrays.
\<close>

definition np_convolve :: "real list \<Rightarrow> real list \<Rightarrow> py_error + real list" where
  "np_convolve a v =
     (if a = [] \<or> v = [] then Inl ValueError
      else Inr (map (\<lambda>k. \<Sum>i\<leftarrow>[0..<length a].
                            if i \<le> k \<and> k - i < length v then a ! i * v ! (k - i) else 0)
                    [0..<length a + length v - 1]))"

fun cumsum_from :: "real \<Rightarrow> real list \<Rightarrow> real list" where
  "cumsum_from s [] = []"
| "cumsum_from s (x # xs) = (s + x) # cumsum_from (s + x) xs"

definition np_cumsum :: "real list \<Rightarrow> real list" where
  "np_cumsum xs = cumsum_from 0 xs"

text \<open>\<open>np.array(range(m))\<close>: empty when \<open>m\<close> is not positive.\<close>

definition np_arange :: "int \<Rightarrow> real list" where
  "np_arange m = map real [0..<nat m]"

text \<open>
  \<open>xs += ys\<close> on arrays: \<open>ys\<close> must have the shape of \<open>xs\<close> or a single element, which
  is then added to every entry; any other shape raises.
\<close>

definition np_iadd :: "real list \<Rightarrow> real list \<Rightarrow> py_error + real list" where
  "np_iadd xs ys =
     (if length ys = length xs then Inr (map2 (+) xs ys)
      else if length ys = 1 then Inr (map (\<lambda>x. x + hd ys) xs)
      else Inl ValueError)"

text \<open>\<open>np.column_stack([xs, ys])\<close>: the two arrays become the columns; lengths must agree.\<close>

definition np_column_stack :: "real list \<Rightarrow> real list \<Rightarrow> py_error + real list list" where
  "np_column_stack xs ys =
     (if length xs = length ys then Inr (map2 (\<lambda>x y. [x, y]) xs ys) else Inl ValueError)"

section \<open>Sample data: the smoothed random walk\<close>

text \<open>
  \<^verbatim>\<open>
  def random_walk(n, f=5000):
      xs = np.convolve(np.random.normal(0, 0.1, size=n), np.ones(f)/f).cumsum()
      ys = np.convolve(np.random.normal(0, 0.1, size=n), np.ones(f)/f).cumsum()
      xs += 0.1*np.sin(0.1*np.array(range(n-1+f))) # add wobble on x axis
      xs += np.random.normal(0, 0.005, size=n-1+f) # add measurement noise
      ys += np.random.normal(0, 0.005, size=n-1+f)
      return np.column_stack([xs, ys])
  \<close>
  The smoothed coordinate of the first two lines is \<open>smoothed\<close>; the result carries the
  random state after the four draws.
\<close>

definition smoothed ::
  "('g \<Rightarrow> real \<times> 'g) \<Rightarrow> int \<Rightarrow> int \<Rightarrow> 'g \<Rightarrow> py_error + (real list \<times> 'g)" where
  "smoothed gauss n f g =
     bind_r (np_random_normal gauss 0 (1/10) n g) (\<lambda>(steps, g1).
     bind_r (np_ones f) (\<lambda>ones.
     bind_r (np_convolve steps (map (\<lambda>x. x / real_of_int f) ones)) (\<lambda>c.
     Inr (np_cumsum c, g1))))"

definition random_walk ::
  "('g \<Rightarrow> real \<times> 'g) \<Rightarrow> int \<Rightarrow> int \<Rightarrow> 'g \<Rightarrow> py_error + (real list list \<times> 'g)" where
  "random_walk gauss n f g =
     bind_r (smoothed gauss n f g) (\<lambda>(xs0, g1).
     bind_r (smoothed gauss n f g1) (\<lambda>(ys0, g2).
     bind_r (np_iadd xs0 (map (\<lambda>t. (1/10) * sin ((1/10) * t)) (np_arange (n - 1 + f)))) (\<lambda>xs1.
     bind_r (np_random_normal gauss 0 (5/1000) (n - 1 + f) g2) (\<lambda>(noise_x, g3).
     bind_r (np_iadd xs1 noise_x) (\<lambda>xs2.
     bind_r (np_random_normal gauss 0 (5/1000) (n - 1 + f) g3) (\<lambda>(noise_y, g4).
     bind_r (np_iadd ys0 noise_y) (\<lambda>ys1.
     bind_r (np_column_stack xs2 ys1) (\<lambda>rows.
     Inr (rows, g4)))))))))"

section \<open>Sample data: the random covariance\<close>










section \<open>Selection statistics\<close>

text \<open>
  \<^verbatim>\<open>
  points = hv.Points(np.random.randn(1000,2 ))
  selection = streams.Selection1D(source=points)

  def selected_info(index):
      selected = points.iloc[index]
      if index:
          label = 'Mean x, y: %.3f, %.3f' % tuple(selected.array().mean(axis=0))
      else:
          label = 'No selection'
      return selected.relabel(label).opts(style=dict(color='red'))
  \<close>
  An element holds its rows (two coordinates each, as \<open>randn(1000, 2)\<close> gives them), a
  label and its style options. The element's methods \<open>iloc\<close>, \<open>array\<close>, \<open>relabel\<close> and
  \<open>opts\<close> are called by the notebook and defined outside it; they are written here as
  the notebook uses them. Row selection by a list of positions follows the array
  library: a position counts from the end when negative and raises when out of range.
  \<open>array().mean(axis=0)\<close> is the mean of each column; on an empty array the library does
  not raise (it yields a not-a-number with a warning), and \<open>selected_info\<close> never asks
  for it there. \<open>relabel\<close> and \<open>opts\<close> replace the label and set a style option. The
  number formatter \<open>%.3f\<close> is a parameter \<open>fmt\<close>; \<open>if index\<close> tests a list, which is
  true when the list is not empty.
\<close>

record element =
  data :: "(real \<times> real) list"
  label :: string
  style :: "string \<rightharpoonup> string"

definition iloc :: "element \<Rightarrow> int list \<Rightarrow> py_error + element" where
  "iloc el index =
     (let n = int (length (data el))
      in if list_all (\<lambda>i. - n \<le> i \<and> i < n) index
         then Inr (el\<lparr>data := map (\<lambda>i. data el ! nat (if i < 0 then i + n else i)) index\<rparr>)
         else Inl IndexError)"

definition mean_axis0 :: "(real \<times> real) list \<Rightarrow> real \<times> real" where
  "mean_axis0 rows =
     (sum_list (map fst rows) / real (length rows), sum_list (map snd rows) / real (length rows))"

definition relabel :: "element \<Rightarrow> string \<Rightarrow> element" where
  "relabel el l = el\<lparr>label := l\<rparr>"

definition opts_style :: "element \<Rightarrow> string \<Rightarrow> string \<Rightarrow> element" where
  "opts_style el k v = el\<lparr>style := (style el)(k \<mapsto> v)\<rparr>"

definition selected_info ::
  "(real \<Rightarrow> string) \<Rightarrow> element \<Rightarrow> int list \<Rightarrow> py_error + element" where
  "selected_info fmt points index =
     bind_r (iloc points index) (\<lambda>selected.
       let l = (if index \<noteq> []
                then (case mean_axis0 (data selected) of
                        (mx, my) \<Rightarrow> ''Mean x, y: '' @ fmt mx @ '', '' @ fmt my)
                else ''No selection'')
       in Inr (opts_style (relabel selected l) ''color'' ''red''))"

section \<open>The aggregate grid of a viewport\<close>

text \<open>
  The notebooks only call the aggregation (\<open>aggregate(points, width=10, height=10)\<close>,
  \<open>datashade(points, width=400, height=400)\<close>); its code is not among the sources. The
  definitions of this section are therefore written from the specification's data model.
\<close>

text \<open>
  Modelled from the spec: the viewport, whose code is missing from the sources.
  "Viewport: (x_min, x_max, y_min, y_max, pixel_width, pixel_height)", "the currently
  visible data-space rectangle and its pixel resolution".
\<close>

record viewport =
  x_min :: real
  x_max :: real
  y_min :: real
  y_max :: real
  pixel_width :: nat
  pixel_height :: nat

text \<open>
  Modelled from the spec: a record of the data source, whose code is missing from the
  sources. "A collection of records with numeric coordinate fields and optional
  categorical/value fields."
\<close>

record datum =
  x_coord :: real
  y_coord :: real
  cat_field :: "string option"
  value_field :: "real option"

text \<open>
  Modelled from the spec: the axis-aligned bin of an output pixel, whose code is missing
  from the sources. The viewport's rectangle is cut into \<open>pixel_width\<close> columns and
  \<open>pixel_height\<close> rows of equal size; the bin of pixel \<open>(i, j)\<close> is the \<open>i\<close>-th column of
  the \<open>j\<close>-th row. A record falls into a bin when its coordinates lie between the bin's
  edges, the lower edge included.
\<close>

record bin =
  bin_left :: real
  bin_right :: real
  bin_bottom :: real
  bin_top :: real

definition pixel_bin :: "viewport \<Rightarrow> nat \<Rightarrow> nat \<Rightarrow> bin" where
  "pixel_bin vp i j =
     \<lparr>bin_left = x_min vp + (x_max vp - x_min vp) * real i / real (pixel_width vp),
      bin_right = x_min vp + (x_max vp - x_min vp) * real (Suc i) / real (pixel_width vp),
      bin_bottom = y_min vp + (y_max vp - y_min vp) * real j / real (pixel_height vp),
      bin_top = y_min vp + (y_max vp - y_min vp) * real (Suc j) / real (pixel_height vp)\<rparr>"

definition in_bin :: "bin \<Rightarrow> datum \<Rightarrow> bool" where
  "in_bin b r \<longleftrightarrow>
     bin_left b \<le> x_coord r \<and> x_coord r < bin_right b
     \<and> bin_bottom b \<le> y_coord r \<and> y_coord r < bin_top b"

text \<open>
  Modelled from the spec: the aggregation step, whose code is missing from the sources.
  "Aggregate Grid: a 2D array of bin values, one bin per output pixel, produced fresh per
  viewport"; "Rasterization: converting a collection of geometric records into a
  fixed-resolution image by binning". The grid is a list of rows. The value of a bin is a
  reduction \<open>reduce\<close> (a count, a mean, a count per category) of the records that fall
  into it; the reduction is a parameter.
\<close>

definition aggregate :: "(datum list \<Rightarrow> 'v) \<Rightarrow> datum list \<Rightarrow> viewport \<Rightarrow> 'v list list" where
  "aggregate reduce ds vp =
     map (\<lambda>j. map (\<lambda>i. reduce (filter (in_bin (pixel_bin vp i j)) ds)) [0..<pixel_width vp])
         [0..<pixel_height vp]"

text \<open>
  Modelled from the spec: the mapping from output pixels to bins, whose code is missing
  from the sources, as the list of the grid's bins, each with the pixel it belongs to.
  Two bins overlap when they share a region of positive area.
\<close>

definition grid_bins :: "viewport \<Rightarrow> ((nat \<times> nat) \<times> bin) list" where
  "grid_bins vp =
     concat (map (\<lambda>j. map (\<lambda>i. ((i, j), pixel_bin vp i j)) [0..<pixel_width vp])
                 [0..<pixel_height vp])"

definition overlaps :: "bin \<Rightarrow> bin \<Rightarrow> bool" where
  "overlaps b c \<longleftrightarrow>
     max (bin_left b) (bin_left c) < min (bin_right b) (bin_right c)
     \<and> max (bin_bottom b) (bin_bottom c) < min (bin_top b) (bin_top c)"

section \<open>Shapes of the sample data\<close>

lemma length_draws: "length (fst (draws gauss k g)) = k"
proof (induction k arbitrary: g)
  case 0
  show ?case by simp
next
  case (Suc k)
  obtain z g1 where z: "gauss g = (z, g1)" by (cases "gauss g")
  obtain zs g2 where zs: "draws gauss k g1 = (zs, g2)" by (cases "draws gauss k g1")
  from Suc [of g1] zs have "length zs = k" by simp
  with z zs show ?case by simp
qed

lemma length_cumsum_from: "length (cumsum_from s xs) = length xs"
  by (induction xs arbitrary: s) auto

lemma np_random_normal_ok:
  assumes "0 \<le> sz" "0 \<le> scale"
  shows "\<exists>zs g'. np_random_normal gauss loc scale sz g = Inr (zs, g') \<and> length zs = nat sz"
proof -
  obtain zs g' where d: "draws gauss (nat sz) g = (zs, g')"
    by (cases "draws gauss (nat sz) g")
  have "length zs = nat sz"
    using length_draws [of gauss "nat sz" g] d by simp
  with assms d show ?thesis
    by (simp add: np_random_normal_def)
qed

lemma smoothed_ok:
  assumes "1 \<le> n" "1 \<le> f"
  shows "\<exists>xs g'. smoothed gauss n f g = Inr (xs, g') \<and> length xs = nat (n + f - 1)"
proof -
  obtain steps g1 where s: "np_random_normal gauss 0 (1/10) n g = Inr (steps, g1)"
    and ls: "length steps = nat n"
    using np_random_normal_ok [of n "1/10" gauss 0 g] assms by auto
  have ne: "steps \<noteq> []" using ls assms by auto
  have "nat n + nat f - 1 = nat (n + f - 1)" using assms by linarith
  with s ls ne assms show ?thesis
    by (simp add: smoothed_def bind_r_def np_ones_def np_convolve_def np_cumsum_def
        length_cumsum_from)
qed

lemma random_walk_returns:
  assumes "1 \<le> n" "1 \<le> f"
  shows "\<exists>rows g'. random_walk gauss n f g = Inr (rows, g')
           \<and> int (length rows) = n + f - 1
           \<and> list_all (\<lambda>r. length r = 2) rows"
proof -
  let ?m = "nat (n + f - 1)"
  have m: "n - 1 + f = n + f - 1" "0 \<le> n + f - 1" using assms by auto
  obtain xs0 g1 where x: "smoothed gauss n f g = Inr (xs0, g1)" and lx: "length xs0 = ?m"
    using smoothed_ok [OF assms, of gauss g] by blast
  obtain ys0 g2 where y: "smoothed gauss n f g1 = Inr (ys0, g2)" and ly: "length ys0 = ?m"
    using smoothed_ok [OF assms, of gauss g1] by blast
  obtain nx g3 where a: "np_random_normal gauss 0 (5/1000) (n + f - 1) g2 = Inr (nx, g3)"
    and la: "length nx = ?m"
    using np_random_normal_ok [of "n + f - 1" "5/1000" gauss 0 g2] m by auto
  obtain ny g4 where b: "np_random_normal gauss 0 (5/1000) (n + f - 1) g3 = Inr (ny, g4)"
    and lb: "length ny = ?m"
    using np_random_normal_ok [of "n + f - 1" "5/1000" gauss 0 g3] m by auto
  have e: "n - 1 + f = n + f - 1" by (rule m(1))
  have l1: "length (map (\<lambda>t. (1/10) * sin ((1/10) * t)) (np_arange (n + f - 1))) = length xs0"
    using lx by (simp add: np_arange_def)
  have rw: "random_walk gauss n f g =
      Inr (map2 (\<lambda>x y. [x, y])
             (map2 (+) (map2 (+) xs0 (map (\<lambda>t. (1/10) * sin ((1/10) * t)) (np_arange (n + f - 1)))) nx)
             (map2 (+) ys0 ny), g4)"
    unfolding random_walk_def e
    using x y a b lx ly la lb l1
    by (simp add: bind_r_def np_iadd_def np_column_stack_def)
  have "int ?m = n + f - 1" using m by simp
  with rw lx ly la lb assms show ?thesis
    by (simp add: np_arange_def list_all_iff in_set_zip) auto
qed

text \<open>
  C8, as amended. For every \<open>n \<ge> 1\<close> and filter length \<open>f \<ge> 1\<close>, \<open>random_walk(n, f)\<close> returns
  (it does not raise) a two-column array with exactly \<open>n + f - 1\<close> rows, the length of the
  full convolution. That is not \<open>n\<close> rows exactly when \<open>f > 1\<close>; with a filter of length
  one it is \<open>n\<close> rows.
\<close>

theorem random_walk_rows:
  assumes "1 \<le> n" "1 \<le> f"
  shows "\<exists>rows g'. random_walk gauss n f g = Inr (rows, g')
           \<and> int (length rows) = n + f - 1
           \<and> list_all (\<lambda>r. length r = 2) rows
           \<and> (int (length rows) \<noteq> n \<longleftrightarrow> 1 < f)"
proof -
  obtain rows g' where r: "random_walk gauss n f g = Inr (rows, g')"
    and l: "int (length rows) = n + f - 1"
    and c: "list_all (\<lambda>r. length r = 2) rows"
    using random_walk_returns [OF assms, of gauss g] by blast
  from l have "int (length rows) \<noteq> n \<longleftrightarrow> 1 < f"
    using assms by auto
  with r l c show ?thesis by blast
qed

theorem random_walk_rows_witness:
  "(1::int) \<le> 2 \<and> (1::int) \<le> 3
   \<and> (\<exists>rows g'. random_walk (replay [1, 2, 3]) 2 3 0 = Inr (rows, g')
         \<and> length rows = 4 \<and> list_all (\<lambda>r. length r = 2) rows)"
  using random_walk_rows [of 2 3 "replay [1, 2, 3]" 0] by auto

text \<open>
  The claim as first stated, "\<open>n + f - 1\<close> rows, not \<open>n\<close> rows" for every \<open>f \<ge> 1\<close>, fails
  for a filter of length one: \<open>random_walk(2, 1)\<close> returns exactly two rows.
\<close>

theorem random_walk_filter_one:
  "map_sum id (length \<circ> fst) (random_walk (replay []) 2 1 0) = Inr 2"
  using random_walk_returns [of 2 1 "replay []" 0] by auto

section \<open>The random covariance under rounding\<close>


lemma upt2: "[0..<2] = [0, Suc 0]"
  by (simp add: numeral_eq_Suc)























section \<open>Statistics of a selection\<close>

text \<open>
  C10. For every list of selection indices (positions of points of the source, from 0
  to the number of points, excluded), \<open>selected_info(index)\<close> does not raise and returns
  the points at those positions, relabelled: an empty list gives the label
  \<open>No selection\<close> and an element without points; a non-empty list gives a label that
  reports the mean x and the mean y of exactly the selected points.
\<close>

theorem selected_info_ok:
  assumes "\<forall>i\<in>set index. 0 \<le> i \<and> i < int (length (data points))"
  shows "\<exists>el. selected_info fmt points index = Inr el
           \<and> data el = map (\<lambda>i. data points ! nat i) index
           \<and> (index = [] \<longrightarrow> label el = ''No selection'' \<and> data el = [])
           \<and> (index \<noteq> [] \<longrightarrow>
                label el = ''Mean x, y: ''
                  @ fmt ((\<Sum>i\<leftarrow>index. fst (data points ! nat i)) / real (length index))
                  @ '', ''
                  @ fmt ((\<Sum>i\<leftarrow>index. snd (data points ! nat i)) / real (length index)))"
proof -
  let ?n = "int (length (data points))"
  let ?sel = "map (\<lambda>i. data points ! nat i) index"
  have ok: "list_all (\<lambda>i. - ?n \<le> i \<and> i < ?n) index"
    using assms by (auto simp: list_all_iff)
  have "map (\<lambda>i. data points ! nat (if i < 0 then i + ?n else i)) index = ?sel"
    using assms by (intro map_cong) auto
  with ok have il: "iloc points index = Inr (points\<lparr>data := ?sel\<rparr>)"
    by (simp add: iloc_def Let_def)
  show ?thesis
    unfolding selected_info_def il bind_r_def
    by (simp add: mean_axis0_def relabel_def opts_style_def comp_def)
qed

theorem selected_info_ok_witness:
  "list_all (\<lambda>i. 0 \<le> i \<and> i < 3) [0, 2 :: int]
   \<and> (\<exists>el. selected_info (\<lambda>r. if r = 3 then ''3.000'' else if r = 4 then ''4.000'' else ''?'')
                 \<lparr>data = [(1, 2), (3, 4), (5, 6)], label = [], style = Map.empty\<rparr> [0, 2] = Inr el
            \<and> data el = [(1, 2), (5, 6)]
            \<and> label el = ''Mean x, y: 3.000, 4.000'')"
  using selected_info_ok [of "[0, 2]" "\<lparr>data = [(1, 2), (3, 4), (5, 6)], label = [], style = Map.empty\<rparr>"
      "\<lambda>r. if r = 3 then ''3.000'' else if r = 4 then ''4.000'' else ''?''"]
  by auto

text \<open>
  A position outside the source is not a selection index: the row selection raises.
\<close>

lemma selected_info_out_of_range:
  "selected_info fmt \<lparr>data = [(1, 2), (3, 4)], label = [], style = Map.empty\<rparr> [2] = Inl IndexError"
  by (simp add: selected_info_def iloc_def bind_r_def)

section \<open>Invariants of the aggregate grid\<close>

text \<open>
  C1. For every viewport with pixel dimensions \<open>(pixel_width, pixel_height)\<close>, every data
  source and every reduction, the aggregate grid has exactly \<open>pixel_height\<close> rows and
  every row has exactly \<open>pixel_width\<close> columns: one bin per requested output pixel.
\<close>

theorem aggregate_shape:
  "length (aggregate reduce ds vp) = pixel_height vp
   \<and> list_all (\<lambda>row. length row = pixel_width vp) (aggregate reduce ds vp)
   \<and> length (concat (aggregate reduce ds vp)) = pixel_width vp * pixel_height vp"
proof -
  have "sum_list (map length (aggregate reduce ds vp)) = pixel_width vp * pixel_height vp"
    by (simp add: aggregate_def comp_def sum_list_triv)
  then show ?thesis
    by (simp add: aggregate_def list_all_iff length_concat)
qed

theorem aggregate_shape_witness:
  "aggregate length
     [\<lparr>x_coord = 1, y_coord = 1/2, cat_field = None, value_field = None\<rparr>,
      \<lparr>x_coord = 3, y_coord = 3/2, cat_field = None, value_field = None\<rparr>,
      \<lparr>x_coord = 7/2, y_coord = 1, cat_field = None, value_field = None\<rparr>,
      \<lparr>x_coord = 5, y_coord = 5, cat_field = None, value_field = None\<rparr>]
     \<lparr>x_min = 0, x_max = 4, y_min = 0, y_max = 2, pixel_width = 2, pixel_height = 2\<rparr>
     = [[1, 0], [0, 2]]
   \<and> length (aggregate length
     [\<lparr>x_coord = 1, y_coord = 1/2, cat_field = None, value_field = None\<rparr>,
      \<lparr>x_coord = 3, y_coord = 3/2, cat_field = None, value_field = None\<rparr>,
      \<lparr>x_coord = 7/2, y_coord = 1, cat_field = None, value_field = None\<rparr>,
      \<lparr>x_coord = 5, y_coord = 5, cat_field = None, value_field = None\<rparr>]
     \<lparr>x_min = 0, x_max = 4, y_min = 0, y_max = 2, pixel_width = 2, pixel_height = 2\<rparr>) = 2"
  using aggregate_shape [of length
     "[\<lparr>x_coord = 1, y_coord = 1/2, cat_field = None, value_field = None\<rparr>,
      \<lparr>x_coord = 3, y_coord = 3/2, cat_field = None, value_field = None\<rparr>,
      \<lparr>x_coord = 7/2, y_coord = 1, cat_field = None, value_field = None\<rparr>,
      \<lparr>x_coord = 5, y_coord = 5, cat_field = None, value_field = None\<rparr>]"
     "\<lparr>x_min = 0, x_max = 4, y_min = 0, y_max = 2, pixel_width = 2, pixel_height = 2\<rparr>"]
  by (simp add: aggregate_def pixel_bin_def in_bin_def upt2)

lemma set_grid_bins:
  "set (grid_bins vp) =
     {((i, j), pixel_bin vp i j) | i j. i < pixel_width vp \<and> j < pixel_height vp}"
  by (auto simp: grid_bins_def)

lemma between_ends:
  fixes a b t :: real
  assumes "0 \<le> t" "t \<le> 1"
  shows "min a b \<le> a + (b - a) * t \<and> a + (b - a) * t \<le> max a b"
proof (cases "a \<le> b")
  case True
  then have "0 \<le> (b - a) * t" using assms by simp
  moreover have "(b - a) * t \<le> (b - a) * 1"
    using True assms by (intro mult_left_mono) auto
  ultimately show ?thesis using True by simp
next
  case False
  then have "(a - b) * t \<le> (a - b) * 1"
    using assms by (intro mult_left_mono) auto
  moreover have "0 \<le> (a - b) * t" using False assms by simp
  ultimately show ?thesis using False by (simp add: algebra_simps)
qed

lemma edge_between:
  assumes "k \<le> w" "0 < w"
  shows "min a b \<le> a + (b - a) * real k / real w \<and> a + (b - a) * real k / real w \<le> max a b"
  using between_ends [of "real k / real w" a b] assms by simp

lemma edge_less_iff:
  fixes a d :: real
  assumes "0 < d" "0 < w"
  shows "a + d * real i / real w < a + d * real k / real w \<longleftrightarrow> i < k"
  using assms by (simp add: divide_less_cancel)

lemma interval_overlap_same:
  fixes a d :: real
  assumes "0 < d" "0 < w"
    and "max (a + d * real i / real w) (a + d * real i' / real w)
          < min (a + d * real (Suc i) / real w) (a + d * real (Suc i') / real w)"
  shows "i' = i"
proof -
  have "a + d * real i / real w < a + d * real (Suc i') / real w"
    and "a + d * real i' / real w < a + d * real (Suc i) / real w"
    using assms(3) by simp_all
  then have "i < Suc i'" and "i' < Suc i"
    using edge_less_iff [OF assms(1,2)] by blast+
  then show ?thesis by simp
qed

text \<open>
  C2. For every viewport, every output pixel \<open>(i, j)\<close> maps to exactly one bin of the
  grid, and every bin of the grid is the bin of a pixel. The bin is an axis-aligned
  rectangle whose edges lie within the viewport's data-space rectangle. When the
  viewport's rectangle is not degenerate the bin has positive width and height and
  overlaps the bin of no other pixel: no pixel is split across bins and no pixel is left
  without a bin.
\<close>

theorem pixel_has_one_bin:
  assumes "i < pixel_width vp" "j < pixel_height vp"
  shows "(\<exists>!b. ((i, j), b) \<in> set (grid_bins vp))
    \<and> ((i, j), pixel_bin vp i j) \<in> set (grid_bins vp)
    \<and> (\<forall>p b. (p, b) \<in> set (grid_bins vp) \<longrightarrow>
          fst p < pixel_width vp \<and> snd p < pixel_height vp \<and> b = pixel_bin vp (fst p) (snd p))
    \<and> min (x_min vp) (x_max vp) \<le> bin_left (pixel_bin vp i j)
    \<and> bin_right (pixel_bin vp i j) \<le> max (x_min vp) (x_max vp)
    \<and> min (y_min vp) (y_max vp) \<le> bin_bottom (pixel_bin vp i j)
    \<and> bin_top (pixel_bin vp i j) \<le> max (y_min vp) (y_max vp)
    \<and> (x_min vp < x_max vp \<and> y_min vp < y_max vp \<longrightarrow>
          bin_left (pixel_bin vp i j) < bin_right (pixel_bin vp i j)
          \<and> bin_bottom (pixel_bin vp i j) < bin_top (pixel_bin vp i j)
          \<and> (\<forall>i' j'. i' < pixel_width vp \<and> j' < pixel_height vp
                \<and> overlaps (pixel_bin vp i j) (pixel_bin vp i' j') \<longrightarrow> i' = i \<and> j' = j))"
proof -
  have w: "0 < pixel_width vp" and h: "0 < pixel_height vp" using assms by auto
  have one: "\<exists>!b. ((i, j), b) \<in> set (grid_bins vp)"
    using assms by (auto simp: set_grid_bins)
  have mem: "((i, j), pixel_bin vp i j) \<in> set (grid_bins vp)"
    using assms by (auto simp: set_grid_bins)
  have onto: "\<forall>p b. (p, b) \<in> set (grid_bins vp) \<longrightarrow>
      fst p < pixel_width vp \<and> snd p < pixel_height vp \<and> b = pixel_bin vp (fst p) (snd p)"
    by (auto simp: set_grid_bins)
  have l: "min (x_min vp) (x_max vp) \<le> bin_left (pixel_bin vp i j)"
    using edge_between [of i "pixel_width vp" "x_min vp" "x_max vp"] assms w
    by (simp add: pixel_bin_def)
  have r: "bin_right (pixel_bin vp i j) \<le> max (x_min vp) (x_max vp)"
    using edge_between [of "Suc i" "pixel_width vp" "x_min vp" "x_max vp"] assms w
    by (simp add: pixel_bin_def)
  have b: "min (y_min vp) (y_max vp) \<le> bin_bottom (pixel_bin vp i j)"
    using edge_between [of j "pixel_height vp" "y_min vp" "y_max vp"] assms h
    by (simp add: pixel_bin_def)
  have t: "bin_top (pixel_bin vp i j) \<le> max (y_min vp) (y_max vp)"
    using edge_between [of "Suc j" "pixel_height vp" "y_min vp" "y_max vp"] assms h
    by (simp add: pixel_bin_def)
  have nd: "bin_left (pixel_bin vp i j) < bin_right (pixel_bin vp i j)
      \<and> bin_bottom (pixel_bin vp i j) < bin_top (pixel_bin vp i j)
      \<and> (\<forall>i' j'. i' < pixel_width vp \<and> j' < pixel_height vp
            \<and> overlaps (pixel_bin vp i j) (pixel_bin vp i' j') \<longrightarrow> i' = i \<and> j' = j)"
    if x: "x_min vp < x_max vp" and y: "y_min vp < y_max vp"
  proof -
    have dx: "0 < x_max vp - x_min vp" and dy: "0 < y_max vp - y_min vp"
      using x y by simp_all
    have 1: "bin_left (pixel_bin vp i j) < bin_right (pixel_bin vp i j)"
      unfolding pixel_bin_def using edge_less_iff [OF dx w, of "x_min vp" i "Suc i"] by simp
    have 2: "bin_bottom (pixel_bin vp i j) < bin_top (pixel_bin vp i j)"
      unfolding pixel_bin_def using edge_less_iff [OF dy h, of "y_min vp" j "Suc j"] by simp
    have 3: "i' = i \<and> j' = j" if "overlaps (pixel_bin vp i j) (pixel_bin vp i' j')" for i' j'
    proof
      show "i' = i"
        using that interval_overlap_same [OF dx w, of "x_min vp" i i']
        by (simp add: overlaps_def pixel_bin_def)
      show "j' = j"
        using that interval_overlap_same [OF dy h, of "y_min vp" j j']
        by (simp add: overlaps_def pixel_bin_def)
    qed
    from 1 2 3 show ?thesis by blast
  qed
  from one mem onto l r b t nd show ?thesis by blast
qed

theorem pixel_has_one_bin_witness:
  "(0::nat) < 2 \<and> (1::nat) < 2
   \<and> (\<exists>!b. ((0, 1), b) \<in> set (grid_bins
          \<lparr>x_min = 0, x_max = 4, y_min = 0, y_max = 2, pixel_width = 2, pixel_height = 2\<rparr>))
   \<and> pixel_bin \<lparr>x_min = 0, x_max = 4, y_min = 0, y_max = 2, pixel_width = 2, pixel_height = 2\<rparr> 0 1
       = \<lparr>bin_left = 0, bin_right = 2, bin_bottom = 1, bin_top = 2\<rparr>
   \<and> \<not> overlaps
        (pixel_bin \<lparr>x_min = 0, x_max = 4, y_min = 0, y_max = 2, pixel_width = 2, pixel_height = 2\<rparr> 0 1)
        (pixel_bin \<lparr>x_min = 0, x_max = 4, y_min = 0, y_max = 2, pixel_width = 2, pixel_height = 2\<rparr> 1 1)"
proof -
  let ?vp = "\<lparr>x_min = 0, x_max = 4, y_min = 0, y_max = 2, pixel_width = 2, pixel_height = 2\<rparr>"
  have z: "(0::nat) < 2 \<and> (1::nat) < 2" by simp
  have a: "0 < pixel_width ?vp" "1 < pixel_height ?vp" by simp_all
  have u: "\<exists>!b. ((0, 1), b) \<in> set (grid_bins ?vp)"
    using pixel_has_one_bin [of 0 ?vp 1, OF a] by (rule conjunct1)
  have e: "pixel_bin ?vp 0 1 = \<lparr>bin_left = 0, bin_right = 2, bin_bottom = 1, bin_top = 2\<rparr>"
    by (simp add: pixel_bin_def)
  have n: "\<not> overlaps (pixel_bin ?vp 0 1) (pixel_bin ?vp 1 1)"
    by (simp add: pixel_bin_def overlaps_def)
  from z u e n show ?thesis by blast
qed

end
